theory Spec2Isabelle
  imports Main "HOL-Library.Sublist"
begin

section \<open>The git object pusher of pkg/release/push\_git\_objects.go\<close>

text \<open>
  The file defines one type, \<open>GitObjectPusher\<close>, its constructor \<open>NewGitPusher\<close> and the two
  operations \<open>PushBranch\<close> and \<open>PushTag\<close> (the spec calls them Create, PublishBranch and
  PublishTag). Everything they do to a repository goes through the methods of \<open>git.Repo\<close>,
  and the two name checks go through \<open>semver.Parse\<close> and \<open>util.TagStringToSemver\<close>. None of
  these is defined in this file, so the model takes them as parameters: what is proved holds
  for every repository implementation and every parser.

  Calls to \<open>logrus\<close> only write log lines; they are left out, and with them the map
  \<open>dryRunLabel\<close>, which is read for log lines only.
\<close>

subsection \<open>Errors\<close>

text \<open>
  Go's \<open>error\<close> values as the package \<open>github.com/pkg/errors\<close> builds them:
  \<open>errors.New\<close> and \<open>errors.Errorf\<close> make a new error from a message, \<open>errors.Wrap\<close> and
  \<open>errors.Wrapf\<close> put a message around an existing error. A \<open>nil\<close> error is \<open>None\<close> of
  \<open>error option\<close>. Format strings are written out as concatenations.
\<close>

datatype error = errors_New string | errors_Wrap error string

subsection \<open>Data\<close>

text \<open>\<open>MaxRetries\<close> is a Go \<open>int\<close>; it is only passed on, never computed with.\<close>

record GitObjectPusherOptions =
  DryRun :: bool
  MaxRetries :: int
  RepoPath :: string

record 'r GitObjectPusher =
  repo :: 'r
  opts :: GitObjectPusherOptions

subsection \<open>The collaborators, as parameters\<close>

text \<open>
  The package \<open>git\<close>: the constant \<open>git.DefaultBranch\<close>, the function \<open>git.OpenRepo\<close> and the
  methods of \<open>git.Repo\<close> that this file calls. \<open>'r\<close> is the state of a repository handle
  together with whatever it stands for (working tree, remote). Every method may change that
  state, so each one returns the state after the call. A Go result \<open>(x, err)\<close> is a sum:
  \<open>Inl err\<close> when \<open>err\<close> is not nil, \<open>Inr x\<close> otherwise (the code reads \<open>x\<close> only after it
  has found \<open>err\<close> to be nil).
\<close>

record 'r git =
  DefaultBranch :: string
  OpenRepo :: "string \<Rightarrow> error + 'r"
  Checkout :: "string \<Rightarrow> 'r \<Rightarrow> error option \<times> 'r"
  SetDry :: "'r \<Rightarrow> 'r"
  SetMaxRetries :: "int \<Rightarrow> 'r \<Rightarrow> 'r"
  HasBranch :: "string \<Rightarrow> 'r \<Rightarrow> (error + bool) \<times> 'r"
  HasRemoteBranch :: "string \<Rightarrow> 'r \<Rightarrow> (error + bool) \<times> 'r"
  TagsForBranch :: "string \<Rightarrow> 'r \<Rightarrow> (error + string list) \<times> 'r"
  HasRemoteTag :: "string \<Rightarrow> 'r \<Rightarrow> (error + bool) \<times> 'r"
  Push :: "string \<Rightarrow> 'r \<Rightarrow> error option \<times> 'r"

text \<open>
  The two parsers: \<open>semver.Parse\<close> of \<open>github.com/blang/semver\<close> and
  \<open>util.TagStringToSemver\<close>. \<open>'v\<close> is the type of parsed versions; the code throws the
  version away and keeps the error only.
\<close>

record 'v parsers =
  semver_Parse :: "string \<Rightarrow> error + 'v"
  TagStringToSemver :: "string \<Rightarrow> error + 'v"

subsection \<open>The calls made to the repository\<close>

text \<open>
  To speak about which repository calls an operation makes, every operation of the model
  also returns the list of the calls it made, in order, each with what it returned. The
  list is bookkeeping of the model: it changes no result.
\<close>

datatype event =
    EvOpenRepo string "error option"
  | EvCheckout string "error option"
  | EvSetDry
  | EvSetMaxRetries int
  | EvHasBranch string "error + bool"
  | EvHasRemoteBranch string "error + bool"
  | EvTagsForBranch string "error + string list"
  | EvHasRemoteTag string "error + bool"
  | EvPush string "error option"

fun is_push :: "event \<Rightarrow> bool" where
  "is_push (EvPush n res) = True"
| "is_push ev = False"

definition push_count :: "event list \<Rightarrow> nat" where
  "push_count evs = length (filter is_push evs)"

text \<open>The error a call returned, if it returned one.\<close>

fun sum_error :: "error + 'a \<Rightarrow> error option" where
  "sum_error (Inl err) = Some err"
| "sum_error (Inr x) = None"

fun event_error :: "event \<Rightarrow> error option" where
  "event_error (EvOpenRepo p res) = res"
| "event_error (EvCheckout b res) = res"
| "event_error EvSetDry = None"
| "event_error (EvSetMaxRetries n) = None"
| "event_error (EvHasBranch n res) = sum_error res"
| "event_error (EvHasRemoteBranch n res) = sum_error res"
| "event_error (EvTagsForBranch b res) = sum_error res"
| "event_error (EvHasRemoteTag n res) = sum_error res"
| "event_error (EvPush n res) = res"

subsection \<open>Go's strings.HasPrefix and strings.TrimPrefix\<close>

definition strings_HasPrefix :: "string \<Rightarrow> string \<Rightarrow> bool" where
  "strings_HasPrefix s pre = (length pre \<le> length s \<and> take (length pre) s = pre)"

definition strings_TrimPrefix :: "string \<Rightarrow> string \<Rightarrow> string" where
  "strings_TrimPrefix s pre = (if strings_HasPrefix s pre then drop (length pre) s else s)"

subsection \<open>The name checks\<close>

definition checkTagName :: "'v parsers \<Rightarrow> string \<Rightarrow> error option" where
  "checkTagName P tagName =
     (case TagStringToSemver P tagName of
        Inl err \<Rightarrow> Some (errors_Wrap err ''tranforming tag into semver'')
      | Inr v \<Rightarrow> None)"

definition checkBranchName :: "'v parsers \<Rightarrow> string \<Rightarrow> error option" where
  "checkBranchName P branchName =
     (if \<not> strings_HasPrefix branchName ''release-''
      then Some (errors_New ''Branch name has to start with release-'')
      else let versionTag = strings_TrimPrefix branchName ''release-'' in
        (case semver_Parse P (versionTag @ ''.0'') of
           Inl err \<Rightarrow> Some (errors_Wrap err ''parsing semantic version in branchname'')
         | Inr v \<Rightarrow> None))"

subsection \<open>NewGitPusher\<close>

definition NewGitPusher ::
  "'r git \<Rightarrow> GitObjectPusherOptions \<Rightarrow> (error + 'r GitObjectPusher) \<times> event list" where
  "NewGitPusher G options =
     (case OpenRepo G (RepoPath options) of
        Inl err \<Rightarrow>
          (Inl (errors_Wrap err ''while opening repository''),
           [EvOpenRepo (RepoPath options) (Some err)])
      | Inr r0 \<Rightarrow>
          (case Checkout G (DefaultBranch G) r0 of
             (Some err, r1) \<Rightarrow>
               (Inl (errors_Wrap err (''checking out '' @ DefaultBranch G @ '' branch'')),
                [EvOpenRepo (RepoPath options) None, EvCheckout (DefaultBranch G) (Some err)])
           | (None, r1) \<Rightarrow>
               (let (r2, evs) = (if DryRun options then (SetDry G r1, [EvSetDry]) else (r1, []));
                    r3 = SetMaxRetries G (MaxRetries options) r2
                in (Inr \<lparr>repo = r3, opts = options\<rparr>,
                    [EvOpenRepo (RepoPath options) None, EvCheckout (DefaultBranch G) None]
                      @ evs @ [EvSetMaxRetries (MaxRetries options)]))))"

subsection \<open>PushBranch\<close>

definition PushBranch ::
  "'v parsers \<Rightarrow> 'r git \<Rightarrow> 'r GitObjectPusher \<Rightarrow> string
     \<Rightarrow> error option \<times> 'r GitObjectPusher \<times> event list" where
  "PushBranch P G gp branchName =
     (case checkBranchName P branchName of
        Some err \<Rightarrow> (Some (errors_Wrap err ''checking branch name''), gp, [])
      | None \<Rightarrow>
     (case HasBranch G branchName (repo gp) of
        (Inl err, r1) \<Rightarrow>
          (Some (errors_Wrap err ''checking if branch already exists locally''),
           gp\<lparr>repo := r1\<rparr>, [EvHasBranch branchName (Inl err)])
      | (Inr branchExists, r1) \<Rightarrow>
     if \<not> branchExists
     then (Some (errors_New (''Unable to push branch '' @ branchName
                    @ '', it does not exist in the local repo'')),
           gp\<lparr>repo := r1\<rparr>, [EvHasBranch branchName (Inr branchExists)])
     else
     (case HasRemoteBranch G branchName r1 of
        (Inl err, r2) \<Rightarrow>
          (Some (errors_Wrap err (''checking if branch '' @ branchName
                    @ '' exists in remote repository'')),
           gp\<lparr>repo := r2\<rparr>,
           [EvHasBranch branchName (Inr branchExists), EvHasRemoteBranch branchName (Inl err)])
      | (Inr remoteExists, r2) \<Rightarrow>
     if remoteExists
     then (None, gp\<lparr>repo := r2\<rparr>,
           [EvHasBranch branchName (Inr branchExists),
            EvHasRemoteBranch branchName (Inr remoteExists)])
     else
     (case Push G branchName r2 of
        (Some err, r3) \<Rightarrow>
          (Some (errors_Wrap err (''pushing branch '' @ branchName)),
           gp\<lparr>repo := r3\<rparr>,
           [EvHasBranch branchName (Inr branchExists),
            EvHasRemoteBranch branchName (Inr remoteExists),
            EvPush branchName (Some err)])
      | (None, r3) \<Rightarrow>
          (None, gp\<lparr>repo := r3\<rparr>,
           [EvHasBranch branchName (Inr branchExists),
            EvHasRemoteBranch branchName (Inr remoteExists),
            EvPush branchName None])))))"

subsection \<open>PushTag\<close>

text \<open>
  The loop of \<open>PushTag\<close> over \<open>currentTags\<close>: \<open>tagExists\<close> starts false, and the first tag
  equal to \<open>newTag\<close> sets it and leaves the loop. Go's \<open>==\<close> on strings compares bytes.
\<close>

fun tagExists_loop :: "string list \<Rightarrow> string \<Rightarrow> bool" where
  "tagExists_loop [] newTag = False"
| "tagExists_loop (tag # rest) newTag = (if tag = newTag then True else tagExists_loop rest newTag)"

definition PushTag ::
  "'v parsers \<Rightarrow> 'r git \<Rightarrow> 'r GitObjectPusher \<Rightarrow> string
     \<Rightarrow> error option \<times> 'r GitObjectPusher \<times> event list" where
  "PushTag P G gp newTag =
     (case checkTagName P newTag of
        Some err \<Rightarrow> (Some (errors_Wrap err ''parsing version tag''), gp, [])
      | None \<Rightarrow>
     (case TagsForBranch G (DefaultBranch G) (repo gp) of
        (Inl err, r1) \<Rightarrow>
          (Some (errors_Wrap err ''checking if tag exists''),
           gp\<lparr>repo := r1\<rparr>, [EvTagsForBranch (DefaultBranch G) (Inl err)])
      | (Inr currentTags, r1) \<Rightarrow>
     if \<not> tagExists_loop currentTags newTag
     then (Some (errors_New (''unable to push tag '' @ newTag
                    @ '', it does not exist in the repo yet'')),
           gp\<lparr>repo := r1\<rparr>, [EvTagsForBranch (DefaultBranch G) (Inr currentTags)])
     else
     (case HasRemoteTag G newTag r1 of
        (Inl err, r2) \<Rightarrow>
          (Some (errors_Wrap err (''checking of tag '' @ newTag @ '' exists'')),
           gp\<lparr>repo := r2\<rparr>,
           [EvTagsForBranch (DefaultBranch G) (Inr currentTags),
            EvHasRemoteTag newTag (Inl err)])
      | (Inr remoteExists, r2) \<Rightarrow>
     if remoteExists
     then (None, gp\<lparr>repo := r2\<rparr>,
           [EvTagsForBranch (DefaultBranch G) (Inr currentTags),
            EvHasRemoteTag newTag (Inr remoteExists)])
     else
     (case Push G newTag r2 of
        (Some err, r3) \<Rightarrow>
          (Some (errors_Wrap err (''pushing tag '' @ newTag)),
           gp\<lparr>repo := r3\<rparr>,
           [EvTagsForBranch (DefaultBranch G) (Inr currentTags),
            EvHasRemoteTag newTag (Inr remoteExists),
            EvPush newTag (Some err)])
      | (None, r3) \<Rightarrow>
          (None, gp\<lparr>repo := r3\<rparr>,
           [EvTagsForBranch (DefaultBranch G) (Inr currentTags),
            EvHasRemoteTag newTag (Inr remoteExists),
            EvPush newTag None])))))"

subsection \<open>A repository in memory and two small parsers, for concrete runs\<close>

text \<open>
  Modelled from the spec: the package \<open>git\<close> (its \<open>Repo\<close> type, \<open>OpenRepo\<close> and
  \<open>DefaultBranch\<close>) is not part of this file. The theorems below hold for every value of
  type \<open>'r git\<close>; to run the operations on concrete inputs one such value is needed, and
  \<open>mem_git\<close> is one that follows the collaborator contract of the spec (section 6): a handle
  knows its local branches, the tags of the default branch and the refs of the remote, has a
  dry-run flag and a retry count, and \<open>Push\<close> adds the ref to the remote unless the handle is
  in dry-run mode. A handle whose remote is \<open>offline\<close> fails every call that needs the
  remote, and opening the empty path fails.
\<close>

record mem_repo =
  branches :: "string list"
  tags :: "string list"
  remote :: "string list"
  offline :: bool
  dryRun :: bool
  maxRetries :: int

definition remote_has :: "string \<Rightarrow> mem_repo \<Rightarrow> (error + bool) \<times> mem_repo" where
  "remote_has name r =
     (if offline r then (Inl (errors_New ''remote unreachable''), r)
      else (Inr (name \<in> set (remote r)), r))"

definition mem_git :: "mem_repo \<Rightarrow> mem_repo git" where
  "mem_git disk =
     \<lparr> DefaultBranch = ''master'',
       OpenRepo = (\<lambda>path. if path = [] then Inl (errors_New ''repository does not exist'')
                          else Inr disk),
       Checkout = (\<lambda>b r. if b \<in> set (branches r) then (None, r)
                          else (Some (errors_New ''reference not found''), r)),
       SetDry = (\<lambda>r. r\<lparr>dryRun := True\<rparr>),
       SetMaxRetries = (\<lambda>n r. r\<lparr>maxRetries := n\<rparr>),
       HasBranch = (\<lambda>name r. (Inr (name \<in> set (branches r)), r)),
       HasRemoteBranch = remote_has,
       TagsForBranch = (\<lambda>b r. if b \<in> set (branches r) then (Inr (tags r), r)
                               else (Inl (errors_New ''reference not found''), r)),
       HasRemoteTag = remote_has,
       Push = (\<lambda>name r. if offline r then (Some (errors_New ''remote unreachable''), r)
                         else if dryRun r then (None, r)
                         else (None, r\<lparr>remote := name # remote r\<rparr>)) \<rparr>"

text \<open>
  Modelled from the spec: semantic-version parsing is an external capability
  (\<open>semver.Parse\<close>, \<open>util.TagStringToSemver\<close>), not part of this file. For concrete runs,
  \<open>sample_Parse\<close> accepts exactly the strings MAJOR.MINOR.PATCH of three non-empty groups of
  decimal digits, and \<open>sample_TagStringToSemver\<close> accepts the same after an optional
  leading \<open>v\<close>. A parsed version is the list of its three groups.
\<close>

fun split_dots :: "string \<Rightarrow> string list" where
  "split_dots [] = [[]]"
| "split_dots (c # cs) =
     (if c = CHR ''.'' then [] # split_dots cs
      else (case split_dots cs of [] \<Rightarrow> [[c]] | part # parts \<Rightarrow> (c # part) # parts))"

definition is_number :: "string \<Rightarrow> bool" where
  "is_number s = (s \<noteq> [] \<and> list_all (\<lambda>c. c \<in> set ''0123456789'') s)"

definition sample_Parse :: "string \<Rightarrow> error + string list" where
  "sample_Parse s =
     (let parts = split_dots s in
      if length parts = 3 \<and> list_all is_number parts then Inr parts
      else Inl (errors_New ''No Major.Minor.Patch elements found''))"

definition sample_TagStringToSemver :: "string \<Rightarrow> error + string list" where
  "sample_TagStringToSemver tag = sample_Parse (strings_TrimPrefix tag ''v'')"

definition sample_parsers :: "string list parsers" where
  "sample_parsers =
     \<lparr> semver_Parse = sample_Parse, TagStringToSemver = sample_TagStringToSemver \<rparr>"

text \<open>
  A repository on disk with the default branch and one release branch, two tags, and a
  remote that has the default branch only.
\<close>

definition disk0 :: mem_repo where
  "disk0 = \<lparr> branches = [''master'', ''release-1.19''],
             tags = [''v1.18.0'', ''v1.19.0''],
             remote = [''master''],
             offline = False, dryRun = False, maxRetries = 0 \<rparr>"

definition gp0 :: "mem_repo GitObjectPusher" where
  "gp0 = \<lparr> repo = disk0, opts = \<lparr> DryRun = False, MaxRetries = 3, RepoPath = ''/src/k8s'' \<rparr> \<rparr>"

text \<open>
  The same repository after the release branch and the newer tag have been published, a
  pusher on it, and a pusher whose remote cannot be reached.
\<close>

definition disk1 :: mem_repo where
  "disk1 = disk0\<lparr>remote := ''v1.19.0'' # ''release-1.19'' # remote disk0\<rparr>"

definition gp1 :: "mem_repo GitObjectPusher" where
  "gp1 = gp0\<lparr>repo := disk1\<rparr>"

definition gp_offline :: "mem_repo GitObjectPusher" where
  "gp_offline = gp0\<lparr>repo := disk0\<lparr>offline := True\<rparr>\<rparr>"

text \<open>Options with the dry-run flag set, for a path that opens and for one that does not.\<close>

definition options_dry :: GitObjectPusherOptions where
  "options_dry = \<lparr> DryRun = True, MaxRetries = 3, RepoPath = ''/src/k8s'' \<rparr>"

definition options_nowhere :: GitObjectPusherOptions where
  "options_nowhere = \<lparr> DryRun = True, MaxRetries = 3, RepoPath = [] \<rparr>"

subsection \<open>Calls that belong to construction\<close>

text \<open>
  Opening, checking out and configuring the handle are what \<open>NewGitPusher\<close> does;
  \<open>is_setup\<close> recognises these calls in a list of calls.
\<close>

fun is_setup :: "event \<Rightarrow> bool" where
  "is_setup (EvOpenRepo p res) = True"
| "is_setup (EvCheckout b res) = True"
| "is_setup EvSetDry = True"
| "is_setup (EvSetMaxRetries n) = True"
| "is_setup ev = False"

section \<open>Properties\<close>

subsection \<open>Helper facts\<close>

lemma HasPrefix_iff: "strings_HasPrefix s pre \<longleftrightarrow> (\<exists>S. s = pre @ S)"
  unfolding strings_HasPrefix_def
  by (metis append_eq_conv_conj append_take_drop_id length_append le_add1)

lemma TrimPrefix_append: "strings_TrimPrefix (pre @ S) pre = S"
  by (simp add: strings_TrimPrefix_def strings_HasPrefix_def)

text \<open>
  \<open>checkBranchName\<close> accepts exactly the names of the branch-name grammar: \<open>release-\<close>
  followed by a string \<open>S\<close> such that \<open>S\<close> with \<open>.0\<close> appended parses.
\<close>

lemma checkBranchName_None_iff:
  "checkBranchName P n = None \<longleftrightarrow>
     (\<exists>S v. n = ''release-'' @ S \<and> semver_Parse P (S @ ''.0'') = Inr v)"
  unfolding checkBranchName_def Let_def HasPrefix_iff
  by (auto simp: TrimPrefix_append simp del: append.simps split: sum.splits)

lemma checkBranchName_Some_cases:
  "checkBranchName P n = Some err \<Longrightarrow>
     err = errors_New ''Branch name has to start with release-'' \<or>
     (\<exists>e. err = errors_Wrap e ''parsing semantic version in branchname'')"
  unfolding checkBranchName_def Let_def by (auto split: if_splits sum.splits)

lemma tagExists_loop_iff: "tagExists_loop currentTags newTag \<longleftrightarrow> newTag \<in> set currentTags"
  by (induction currentTags) auto

lemma push_count_simps [simp]:
  "push_count [] = 0"
  "push_count (ev # evs) = (if is_push ev then Suc (push_count evs) else push_count evs)"
  "push_count (evs @ evs') = push_count evs + push_count evs'"
  by (simp_all add: push_count_def)

text \<open>
  Unfolding these definitions lets the simplifier run the operations on the sample
  repository.
\<close>

lemmas run_defs =
  PushBranch_def PushTag_def NewGitPusher_def checkBranchName_def checkTagName_def
  strings_HasPrefix_def strings_TrimPrefix_def sample_parsers_def sample_Parse_def
  sample_TagStringToSemver_def is_number_def mem_git_def remote_has_def
  disk0_def gp0_def disk1_def gp1_def gp_offline_def

lemmas new_defs = NewGitPusher_def mem_git_def disk0_def options_dry_def options_nowhere_def

text \<open>
  The outcomes of the three operations, one disjunct per path through the code: what is
  returned and which calls were made.
\<close>

lemma NewGitPusher_cases:
  assumes "NewGitPusher G options = (res, evs)"
  shows "(\<exists>err. OpenRepo G (RepoPath options) = Inl err
            \<and> res = Inl (errors_Wrap err ''while opening repository'')
            \<and> evs = [EvOpenRepo (RepoPath options) (Some err)])
       \<or> (\<exists>err r0 r1. OpenRepo G (RepoPath options) = Inr r0
            \<and> Checkout G (DefaultBranch G) r0 = (Some err, r1)
            \<and> res = Inl (errors_Wrap err (''checking out '' @ DefaultBranch G @ '' branch''))
            \<and> evs = [EvOpenRepo (RepoPath options) None, EvCheckout (DefaultBranch G) (Some err)])
       \<or> (\<exists>r0 r1. OpenRepo G (RepoPath options) = Inr r0
            \<and> Checkout G (DefaultBranch G) r0 = (None, r1)
            \<and> res = Inr \<lparr>repo = SetMaxRetries G (MaxRetries options)
                                 (if DryRun options then SetDry G r1 else r1),
                         opts = options\<rparr>
            \<and> evs = [EvOpenRepo (RepoPath options) None, EvCheckout (DefaultBranch G) None]
                    @ (if DryRun options then [EvSetDry] else [])
                    @ [EvSetMaxRetries (MaxRetries options)])"
  using assms unfolding NewGitPusher_def
  by (auto split: option.splits prod.splits sum.splits if_splits)

lemma PushBranch_cases:
  assumes "PushBranch P G gp n = (e, gp', evs)"
  shows "(\<exists>err. e = Some (errors_Wrap err ''checking branch name'') \<and> evs = []
            \<and> checkBranchName P n = Some err \<and> gp' = gp)
       \<or> (\<exists>err. e = Some (errors_Wrap err ''checking if branch already exists locally'')
            \<and> evs = [EvHasBranch n (Inl err)])
       \<or> (e = Some (errors_New (''Unable to push branch '' @ n
                      @ '', it does not exist in the local repo''))
            \<and> evs = [EvHasBranch n (Inr False)])
       \<or> (\<exists>err. e = Some (errors_Wrap err (''checking if branch '' @ n
                      @ '' exists in remote repository''))
            \<and> evs = [EvHasBranch n (Inr True), EvHasRemoteBranch n (Inl err)])
       \<or> (e = None \<and> evs = [EvHasBranch n (Inr True), EvHasRemoteBranch n (Inr True)])
       \<or> (\<exists>err. e = Some (errors_Wrap err (''pushing branch '' @ n))
            \<and> evs = [EvHasBranch n (Inr True), EvHasRemoteBranch n (Inr False),
                      EvPush n (Some err)])
       \<or> (e = None
            \<and> evs = [EvHasBranch n (Inr True), EvHasRemoteBranch n (Inr False), EvPush n None])"
  using assms unfolding PushBranch_def
  by (auto split: option.splits prod.splits sum.splits if_splits)

lemma PushTag_cases:
  assumes "PushTag P G gp t = (e, gp', evs)"
  shows "(\<exists>err. e = Some (errors_Wrap err ''parsing version tag'') \<and> evs = []
            \<and> checkTagName P t = Some err \<and> gp' = gp)
       \<or> (\<exists>err. e = Some (errors_Wrap err ''checking if tag exists'')
            \<and> evs = [EvTagsForBranch (DefaultBranch G) (Inl err)])
       \<or> (\<exists>ts. e = Some (errors_New (''unable to push tag '' @ t
                      @ '', it does not exist in the repo yet''))
            \<and> evs = [EvTagsForBranch (DefaultBranch G) (Inr ts)] \<and> t \<notin> set ts)
       \<or> (\<exists>err ts. e = Some (errors_Wrap err (''checking of tag '' @ t @ '' exists''))
            \<and> evs = [EvTagsForBranch (DefaultBranch G) (Inr ts), EvHasRemoteTag t (Inl err)]
            \<and> t \<in> set ts)
       \<or> (\<exists>ts. e = None \<and> t \<in> set ts
            \<and> evs = [EvTagsForBranch (DefaultBranch G) (Inr ts), EvHasRemoteTag t (Inr True)])
       \<or> (\<exists>err ts. e = Some (errors_Wrap err (''pushing tag '' @ t)) \<and> t \<in> set ts
            \<and> evs = [EvTagsForBranch (DefaultBranch G) (Inr ts), EvHasRemoteTag t (Inr False),
                      EvPush t (Some err)])
       \<or> (\<exists>ts. e = None \<and> t \<in> set ts
            \<and> evs = [EvTagsForBranch (DefaultBranch G) (Inr ts), EvHasRemoteTag t (Inr False),
                      EvPush t None])"
  using assms unfolding PushTag_def tagExists_loop_iff
  by (auto split: option.splits prod.splits sum.splits if_splits)

lemma PushBranch_opts: "PushBranch P G gp n = (e, gp', evs) \<Longrightarrow> opts gp' = opts gp"
  unfolding PushBranch_def
  by (auto split: option.splits prod.splits sum.splits if_splits)

lemma PushTag_opts: "PushTag P G gp n = (e, gp', evs) \<Longrightarrow> opts gp' = opts gp"
  unfolding PushTag_def
  by (auto split: option.splits prod.splits sum.splits if_splits)

subsection \<open>Pushing a branch twice\<close>

text \<open>
  Claim C1. \<open>PushBranch\<close> is called twice in sequence with the same name, the second call
  on the pusher the first call left. If the first call pushed the branch (its push returned
  no error) and the remote existence check of the second call reports the branch present,
  then both calls return no error and \<open>Push\<close> is invoked exactly once over the two calls.
\<close>

theorem PushBranch_twice:
  assumes "PushBranch P G gp name = (e1, gp', evs1)"
      and "PushBranch P G gp' name = (e2, gp'', evs2)"
      and "EvPush name None \<in> set evs1"
      and "EvHasRemoteBranch name (Inr True) \<in> set evs2"
  shows "e1 = None \<and> e2 = None \<and> push_count (evs1 @ evs2) = 1"
proof -
  from assms(1,3) have "e1 = None \<and> push_count evs1 = 1"
    using PushBranch_cases [of P G gp name e1 gp' evs1] by auto
  moreover from assms(2,4) have "e2 = None \<and> push_count evs2 = 0"
    using PushBranch_cases [of P G gp' name e2 gp'' evs2] by auto
  ultimately show ?thesis by simp
qed

theorem PushBranch_twice_witness:
  "PushBranch sample_parsers (mem_git disk0) gp0 ''release-1.19''
     = (None, gp0\<lparr>repo := disk0\<lparr>remote := ''release-1.19'' # remote disk0\<rparr>\<rparr>,
        [EvHasBranch ''release-1.19'' (Inr True), EvHasRemoteBranch ''release-1.19'' (Inr False),
         EvPush ''release-1.19'' None])
   \<and> PushBranch sample_parsers (mem_git disk0)
        (gp0\<lparr>repo := disk0\<lparr>remote := ''release-1.19'' # remote disk0\<rparr>\<rparr>) ''release-1.19''
     = (None, gp0\<lparr>repo := disk0\<lparr>remote := ''release-1.19'' # remote disk0\<rparr>\<rparr>,
        [EvHasBranch ''release-1.19'' (Inr True), EvHasRemoteBranch ''release-1.19'' (Inr True)])
   \<and> push_count
        ([EvHasBranch ''release-1.19'' (Inr True), EvHasRemoteBranch ''release-1.19'' (Inr False),
          EvPush ''release-1.19'' None]
         @ [EvHasBranch ''release-1.19'' (Inr True),
            EvHasRemoteBranch ''release-1.19'' (Inr True)]) = 1"
proof -
  have first: "PushBranch sample_parsers (mem_git disk0) gp0 ''release-1.19''
     = (None, gp0\<lparr>repo := disk0\<lparr>remote := ''release-1.19'' # remote disk0\<rparr>\<rparr>,
        [EvHasBranch ''release-1.19'' (Inr True), EvHasRemoteBranch ''release-1.19'' (Inr False),
         EvPush ''release-1.19'' None])"
    by (simp add: run_defs)
  have second: "PushBranch sample_parsers (mem_git disk0)
        (gp0\<lparr>repo := disk0\<lparr>remote := ''release-1.19'' # remote disk0\<rparr>\<rparr>) ''release-1.19''
     = (None, gp0\<lparr>repo := disk0\<lparr>remote := ''release-1.19'' # remote disk0\<rparr>\<rparr>,
        [EvHasBranch ''release-1.19'' (Inr True), EvHasRemoteBranch ''release-1.19'' (Inr True)])"
    by (simp add: run_defs)
  have pushed: "EvPush ''release-1.19'' None
      \<in> set [EvHasBranch ''release-1.19'' (Inr True),
              EvHasRemoteBranch ''release-1.19'' (Inr False), EvPush ''release-1.19'' None]"
    by simp
  have seen: "EvHasRemoteBranch ''release-1.19'' (Inr True)
      \<in> set [EvHasBranch ''release-1.19'' (Inr True),
              EvHasRemoteBranch ''release-1.19'' (Inr True)]"
    by simp
  from PushBranch_twice [OF first second pushed seen] first second show ?thesis by blast
qed

subsection \<open>A ref that is already on the remote\<close>

text \<open>
  Claim C2. In \<open>PushBranch\<close> and in \<open>PushTag\<close>, for every name: if the remote existence
  check (\<open>HasRemoteBranch\<close>, \<open>HasRemoteTag\<close>) reports the ref present, the operation
  returns no error and invokes no push.
\<close>

theorem remote_present_is_noop:
  "(PushBranch P G gp name = (e, gp', evs) \<and> EvHasRemoteBranch name (Inr True) \<in> set evs
      \<longrightarrow> e = None \<and> push_count evs = 0)
   \<and> (PushTag P G gp name = (e, gp', evs) \<and> EvHasRemoteTag name (Inr True) \<in> set evs
      \<longrightarrow> e = None \<and> push_count evs = 0)"
proof -
  have branch: "e = None \<and> push_count evs = 0"
    if "PushBranch P G gp name = (e, gp', evs)" "EvHasRemoteBranch name (Inr True) \<in> set evs"
    using that PushBranch_cases [of P G gp name e gp' evs] by auto
  have tag: "e = None \<and> push_count evs = 0"
    if "PushTag P G gp name = (e, gp', evs)" "EvHasRemoteTag name (Inr True) \<in> set evs"
    using that PushTag_cases [of P G gp name e gp' evs] by auto
  from branch tag show ?thesis by blast
qed

theorem remote_present_is_noop_witness:
  "PushBranch sample_parsers (mem_git disk0) gp1 ''release-1.19''
     = (None, gp1, [EvHasBranch ''release-1.19'' (Inr True),
                    EvHasRemoteBranch ''release-1.19'' (Inr True)])
   \<and> push_count [EvHasBranch ''release-1.19'' (Inr True),
                  EvHasRemoteBranch ''release-1.19'' (Inr True)] = 0
   \<and> PushTag sample_parsers (mem_git disk0) gp1 ''v1.19.0''
     = (None, gp1, [EvTagsForBranch ''master'' (Inr [''v1.18.0'', ''v1.19.0'']),
                    EvHasRemoteTag ''v1.19.0'' (Inr True)])
   \<and> push_count [EvTagsForBranch ''master'' (Inr [''v1.18.0'', ''v1.19.0'']),
                  EvHasRemoteTag ''v1.19.0'' (Inr True)] = 0"
proof -
  have branch: "PushBranch sample_parsers (mem_git disk0) gp1 ''release-1.19''
     = (None, gp1, [EvHasBranch ''release-1.19'' (Inr True),
                    EvHasRemoteBranch ''release-1.19'' (Inr True)])"
    by (simp add: run_defs)
  have tag: "PushTag sample_parsers (mem_git disk0) gp1 ''v1.19.0''
     = (None, gp1, [EvTagsForBranch ''master'' (Inr [''v1.18.0'', ''v1.19.0'']),
                    EvHasRemoteTag ''v1.19.0'' (Inr True)])"
    by (simp add: run_defs)
  have b_in: "EvHasRemoteBranch ''release-1.19'' (Inr True)
      \<in> set [EvHasBranch ''release-1.19'' (Inr True),
              EvHasRemoteBranch ''release-1.19'' (Inr True)]"
    by simp
  have t_in: "EvHasRemoteTag ''v1.19.0'' (Inr True)
      \<in> set [EvTagsForBranch ''master'' (Inr [''v1.18.0'', ''v1.19.0'']),
              EvHasRemoteTag ''v1.19.0'' (Inr True)]"
    by simp
  from remote_present_is_noop [of sample_parsers "mem_git disk0" gp1 "''release-1.19''" None gp1
         "[EvHasBranch ''release-1.19'' (Inr True),
           EvHasRemoteBranch ''release-1.19'' (Inr True)]"]
       remote_present_is_noop [of sample_parsers "mem_git disk0" gp1 "''v1.19.0''" None gp1
         "[EvTagsForBranch ''master'' (Inr [''v1.18.0'', ''v1.19.0'']),
           EvHasRemoteTag ''v1.19.0'' (Inr True)]"]
       branch tag b_in t_in
  show ?thesis by blast
qed

subsection \<open>A ref that does not exist locally\<close>

text \<open>
  Claim C3. In \<open>PushBranch\<close> and in \<open>PushTag\<close>, for every name: if the local existence
  check reports the ref absent (\<open>HasBranch\<close> returns false; the name is not among the tags
  that \<open>TagsForBranch\<close> returned), the operation returns the "does not exist" error made
  with \<open>errors.New\<close> / \<open>errors.Errorf\<close> (the spec's RefNotFoundError) and invokes no push.
\<close>

theorem local_absent_is_error:
  "(PushBranch P G gp name = (e, gp', evs) \<and> EvHasBranch name (Inr False) \<in> set evs
      \<longrightarrow> e = Some (errors_New (''Unable to push branch '' @ name
                      @ '', it does not exist in the local repo''))
          \<and> push_count evs = 0)
   \<and> (PushTag P G gp name = (e, gp', evs) \<and> EvTagsForBranch b (Inr currentTags) \<in> set evs
        \<and> name \<notin> set currentTags
      \<longrightarrow> e = Some (errors_New (''unable to push tag '' @ name
                      @ '', it does not exist in the repo yet''))
          \<and> push_count evs = 0)"
proof -
  have branch: "e = Some (errors_New (''Unable to push branch '' @ name
                      @ '', it does not exist in the local repo'')) \<and> push_count evs = 0"
    if "PushBranch P G gp name = (e, gp', evs)" "EvHasBranch name (Inr False) \<in> set evs"
    using that PushBranch_cases [of P G gp name e gp' evs] by auto
  have tag: "e = Some (errors_New (''unable to push tag '' @ name
                      @ '', it does not exist in the repo yet'')) \<and> push_count evs = 0"
    if "PushTag P G gp name = (e, gp', evs)"
      "EvTagsForBranch b (Inr currentTags) \<in> set evs" "name \<notin> set currentTags"
    using that PushTag_cases [of P G gp name e gp' evs] by auto
  from branch tag show ?thesis by blast
qed

theorem local_absent_is_error_witness:
  "PushBranch sample_parsers (mem_git disk0) gp0 ''release-1.20''
     = (Some (errors_New (''Unable to push branch '' @ ''release-1.20''
                @ '', it does not exist in the local repo'')),
        gp0, [EvHasBranch ''release-1.20'' (Inr False)])
   \<and> push_count [EvHasBranch ''release-1.20'' (Inr False)] = 0
   \<and> PushTag sample_parsers (mem_git disk0) gp0 ''v1.20.0''
     = (Some (errors_New (''unable to push tag '' @ ''v1.20.0''
                @ '', it does not exist in the repo yet'')),
        gp0, [EvTagsForBranch ''master'' (Inr [''v1.18.0'', ''v1.19.0''])])
   \<and> ''v1.20.0'' \<notin> set [''v1.18.0'', ''v1.19.0'']
   \<and> push_count [EvTagsForBranch ''master'' (Inr [''v1.18.0'', ''v1.19.0''])] = 0"
proof -
  have branch: "PushBranch sample_parsers (mem_git disk0) gp0 ''release-1.20''
     = (Some (errors_New (''Unable to push branch '' @ ''release-1.20''
                @ '', it does not exist in the local repo'')),
        gp0, [EvHasBranch ''release-1.20'' (Inr False)])"
    by (simp add: run_defs)
  have tag: "PushTag sample_parsers (mem_git disk0) gp0 ''v1.20.0''
     = (Some (errors_New (''unable to push tag '' @ ''v1.20.0''
                @ '', it does not exist in the repo yet'')),
        gp0, [EvTagsForBranch ''master'' (Inr [''v1.18.0'', ''v1.19.0''])])"
    by (simp add: run_defs)
  have b_in: "EvHasBranch ''release-1.20'' (Inr False)
      \<in> set [EvHasBranch ''release-1.20'' (Inr False)]"
    by simp
  have t_in: "EvTagsForBranch ''master'' (Inr [''v1.18.0'', ''v1.19.0''])
      \<in> set [EvTagsForBranch ''master'' (Inr [''v1.18.0'', ''v1.19.0''])]"
    by simp
  have absent: "''v1.20.0'' \<notin> set [''v1.18.0'', ''v1.19.0'']" by simp
  from local_absent_is_error [of sample_parsers "mem_git disk0" gp0 "''release-1.20''" _ gp0
         "[EvHasBranch ''release-1.20'' (Inr False)]"]
       local_absent_is_error [of sample_parsers "mem_git disk0" gp0 "''v1.20.0''" _ gp0
         "[EvTagsForBranch ''master'' (Inr [''v1.18.0'', ''v1.19.0''])]"
         "''master''" "[''v1.18.0'', ''v1.19.0'']"]
       branch tag b_in t_in absent
  show ?thesis by blast
qed

subsection \<open>Invalid branch names\<close>

text \<open>
  Claim C4. For every string that does not match the branch-name grammar (the prefix
  \<open>release-\<close> followed by a string \<open>S\<close> such that \<open>S\<close> with \<open>.0\<close> appended parses as a
  semantic version), \<open>PushBranch\<close> returns the error of \<open>checkBranchName\<close> wrapped with
  "checking branch name" (the spec's InvalidRefNameError), makes no call to the repository
  and leaves the pusher as it was. The inner error is either the missing-prefix error or
  the parser's error wrapped with "parsing semantic version in branchname".
\<close>

theorem PushBranch_invalid_name:
  assumes "\<not> (\<exists>S v. branchName = ''release-'' @ S \<and> semver_Parse P (S @ ''.0'') = Inr v)"
  shows "\<exists>err. PushBranch P G gp branchName
                  = (Some (errors_Wrap err ''checking branch name''), gp, [])
              \<and> (err = errors_New ''Branch name has to start with release-'' \<or>
                 (\<exists>e. err = errors_Wrap e ''parsing semantic version in branchname''))"
proof -
  from assms have "checkBranchName P branchName \<noteq> None"
    by (simp add: checkBranchName_None_iff)
  then obtain err where e: "checkBranchName P branchName = Some err" by auto
  from e have "PushBranch P G gp branchName
                  = (Some (errors_Wrap err ''checking branch name''), gp, [])"
    by (simp add: PushBranch_def)
  with checkBranchName_Some_cases [OF e] show ?thesis by blast
qed

theorem PushBranch_invalid_name_witness:
  "\<not> (\<exists>S v. ''release-foo'' = ''release-'' @ S
            \<and> semver_Parse sample_parsers (S @ ''.0'') = Inr v)
   \<and> (\<exists>err. PushBranch sample_parsers (mem_git disk0) gp0 ''release-foo''
                = (Some (errors_Wrap err ''checking branch name''), gp0, [])
            \<and> (err = errors_New ''Branch name has to start with release-'' \<or>
               (\<exists>e. err = errors_Wrap e ''parsing semantic version in branchname'')))"
proof -
  have h: "\<not> (\<exists>S v. ''release-foo'' = ''release-'' @ S
                 \<and> semver_Parse sample_parsers (S @ ''.0'') = Inr v)"
    by (simp add: sample_parsers_def sample_Parse_def is_number_def)
  show ?thesis
    using h PushBranch_invalid_name [OF h, of "mem_git disk0" gp0] by blast
qed

subsection \<open>A branch that has to be pushed\<close>

text \<open>
  Claim C5. For every branch name of the grammar that exists locally and is absent on the
  remote, both queries succeeding: \<open>PushBranch\<close> invokes \<open>Push\<close> exactly once, after the
  two queries. It returns no error when the push returns none, and the push's error wrapped
  with "pushing branch NAME" (the spec's PushError) when the push fails.
\<close>

theorem PushBranch_pushes_once:
  assumes "\<exists>S v. name = ''release-'' @ S \<and> semver_Parse P (S @ ''.0'') = Inr v"
      and "HasBranch G name (repo gp) = (Inr True, r1)"
      and "HasRemoteBranch G name r1 = (Inr False, r2)"
      and "Push G name r2 = (res, r3)"
  shows "PushBranch P G gp name
           = ((case res of None \<Rightarrow> None
                | Some err \<Rightarrow> Some (errors_Wrap err (''pushing branch '' @ name))),
              gp\<lparr>repo := r3\<rparr>,
              [EvHasBranch name (Inr True), EvHasRemoteBranch name (Inr False), EvPush name res])
         \<and> push_count (snd (snd (PushBranch P G gp name))) = 1"
proof -
  from assms(1) have "checkBranchName P name = None"
    by (simp only: checkBranchName_None_iff)
  with assms(2-4) show ?thesis
    by (cases res) (simp_all add: PushBranch_def)
qed

theorem PushBranch_pushes_once_witness:
  "(\<exists>S v. ''release-1.19'' = ''release-'' @ S
          \<and> semver_Parse sample_parsers (S @ ''.0'') = Inr v)
   \<and> HasBranch (mem_git disk0) ''release-1.19'' (repo gp0) = (Inr True, disk0)
   \<and> HasRemoteBranch (mem_git disk0) ''release-1.19'' disk0 = (Inr False, disk0)
   \<and> Push (mem_git disk0) ''release-1.19'' disk0
       = (None, disk0\<lparr>remote := ''release-1.19'' # remote disk0\<rparr>)
   \<and> PushBranch sample_parsers (mem_git disk0) gp0 ''release-1.19''
       = (None, gp0\<lparr>repo := disk0\<lparr>remote := ''release-1.19'' # remote disk0\<rparr>\<rparr>,
          [EvHasBranch ''release-1.19'' (Inr True),
           EvHasRemoteBranch ''release-1.19'' (Inr False), EvPush ''release-1.19'' None])
   \<and> push_count (snd (snd (PushBranch sample_parsers (mem_git disk0) gp0 ''release-1.19''))) = 1"
proof -
  have h1: "\<exists>S v. ''release-1.19'' = ''release-'' @ S
          \<and> semver_Parse sample_parsers (S @ ''.0'') = Inr v"
    by (simp add: sample_parsers_def sample_Parse_def is_number_def)
  have h2: "HasBranch (mem_git disk0) ''release-1.19'' (repo gp0) = (Inr True, disk0)"
    by (simp add: mem_git_def disk0_def gp0_def)
  have h3: "HasRemoteBranch (mem_git disk0) ''release-1.19'' disk0 = (Inr False, disk0)"
    by (simp add: mem_git_def remote_has_def disk0_def)
  have h4: "Push (mem_git disk0) ''release-1.19'' disk0
       = (None, disk0\<lparr>remote := ''release-1.19'' # remote disk0\<rparr>)"
    by (simp add: mem_git_def disk0_def)
  from PushBranch_pushes_once [OF h1 h2 h3 h4] h1 h2 h3 h4 show ?thesis by simp
qed

subsection \<open>How PushTag decides that a tag exists locally\<close>

text \<open>
  Claim C6. For a tag name that passes \<open>checkTagName\<close>, \<open>PushTag\<close> first asks for the tags
  of the default branch. The loop over them finds the name iff some element of the
  sequence is equal to it as a string (no normalisation: in the sample run \<open>1.18.0\<close> is not
  found among \<open>v1.18.0\<close>, \<open>v1.19.0\<close>), and \<open>PushTag\<close> returns the "does not exist in the
  repo yet" error iff no element is equal to the name.
\<close>

theorem PushTag_local_existence:
  assumes "checkTagName P newTag = None"
      and "TagsForBranch G (DefaultBranch G) (repo gp) = (Inr currentTags, r1)"
  shows "(tagExists_loop currentTags newTag \<longleftrightarrow> (\<exists>tag \<in> set currentTags. tag = newTag))
       \<and> (fst (PushTag P G gp newTag)
             = Some (errors_New (''unable to push tag '' @ newTag
                                   @ '', it does not exist in the repo yet''))
          \<longleftrightarrow> \<not> (\<exists>tag \<in> set currentTags. tag = newTag))
       \<and> hd (snd (snd (PushTag P G gp newTag)))
             = EvTagsForBranch (DefaultBranch G) (Inr currentTags)"
  using assms unfolding PushTag_def tagExists_loop_iff
  by (auto split: option.splits prod.splits sum.splits if_splits)

theorem PushTag_local_existence_witness:
  "checkTagName sample_parsers ''1.18.0'' = None
   \<and> TagsForBranch (mem_git disk0) (DefaultBranch (mem_git disk0)) (repo gp0)
       = (Inr [''v1.18.0'', ''v1.19.0''], disk0)
   \<and> \<not> tagExists_loop [''v1.18.0'', ''v1.19.0''] ''1.18.0''
   \<and> fst (PushTag sample_parsers (mem_git disk0) gp0 ''1.18.0'')
       = Some (errors_New (''unable to push tag '' @ ''1.18.0''
                             @ '', it does not exist in the repo yet''))
   \<and> hd (snd (snd (PushTag sample_parsers (mem_git disk0) gp0 ''1.18.0'')))
       = EvTagsForBranch (DefaultBranch (mem_git disk0)) (Inr [''v1.18.0'', ''v1.19.0''])"
proof -
  have h1: "checkTagName sample_parsers ''1.18.0'' = None"
    by (simp add: run_defs)
  have h2: "TagsForBranch (mem_git disk0) (DefaultBranch (mem_git disk0)) (repo gp0)
       = (Inr [''v1.18.0'', ''v1.19.0''], disk0)"
    by (simp add: mem_git_def disk0_def gp0_def)
  have absent: "\<not> (\<exists>tag \<in> set [''v1.18.0'', ''v1.19.0'']. tag = ''1.18.0'')" by simp
  from PushTag_local_existence [OF h1 h2] h1 h2 absent show ?thesis by blast
qed

subsection \<open>Construction passes the options to the handle\<close>

text \<open>
  Claim C7. When \<open>NewGitPusher\<close> returns a pusher, the handle in it is the handle obtained
  from \<open>OpenRepo\<close> and \<open>Checkout\<close> of the default branch, to which \<open>SetDry\<close> was applied
  when \<open>DryRun\<close> is set, and then \<open>SetMaxRetries\<close> with \<open>MaxRetries\<close>; the pusher holds
  the options it was given. So, for every handle implementation in which \<open>SetDry\<close> turns
  dry-run on, \<open>SetMaxRetries\<close> sets the retry count and leaves dry-run alone, and the handle
  is not in dry-run mode after open and checkout, the handle's dry-run and retry settings
  are those of the options. (\<open>isDry\<close> and \<open>retries\<close> read the two settings of a handle.)
\<close>

theorem NewGitPusher_propagates:
  assumes "NewGitPusher G options = (Inr gp, evs)"
  shows "\<exists>r0 r1. OpenRepo G (RepoPath options) = Inr r0
           \<and> Checkout G (DefaultBranch G) r0 = (None, r1)
           \<and> repo gp = SetMaxRetries G (MaxRetries options)
                          (if DryRun options then SetDry G r1 else r1)
           \<and> opts gp = options
           \<and> evs = [EvOpenRepo (RepoPath options) None, EvCheckout (DefaultBranch G) None]
                    @ (if DryRun options then [EvSetDry] else [])
                    @ [EvSetMaxRetries (MaxRetries options)]
           \<and> ((\<forall>r. isDry (SetDry G r)) \<and> (\<forall>n r. isDry (SetMaxRetries G n r) = isDry r)
                \<and> (\<forall>n r. retries (SetMaxRetries G n r) = n) \<and> \<not> isDry r1
              \<longrightarrow> isDry (repo gp) = DryRun options \<and> retries (repo gp) = MaxRetries options)"
  using NewGitPusher_cases [OF assms] by auto

theorem NewGitPusher_propagates_witness:
  "NewGitPusher (mem_git disk0) options_dry
     = (Inr \<lparr>repo = disk0\<lparr>dryRun := True, maxRetries := 3\<rparr>, opts = options_dry\<rparr>,
        [EvOpenRepo ''/src/k8s'' None, EvCheckout ''master'' None, EvSetDry, EvSetMaxRetries 3])
   \<and> (\<exists>r0 r1. OpenRepo (mem_git disk0) (RepoPath options_dry) = Inr r0
         \<and> Checkout (mem_git disk0) (DefaultBranch (mem_git disk0)) r0 = (None, r1)
         \<and> repo \<lparr>repo = disk0\<lparr>dryRun := True, maxRetries := 3\<rparr>, opts = options_dry\<rparr>
             = SetMaxRetries (mem_git disk0) (MaxRetries options_dry)
                 (if DryRun options_dry then SetDry (mem_git disk0) r1 else r1)
         \<and> \<not> dryRun r1)
   \<and> dryRun (repo \<lparr>repo = disk0\<lparr>dryRun := True, maxRetries := 3\<rparr>, opts = options_dry\<rparr>)
       = DryRun options_dry
   \<and> maxRetries (repo \<lparr>repo = disk0\<lparr>dryRun := True, maxRetries := 3\<rparr>, opts = options_dry\<rparr>)
       = MaxRetries options_dry"
proof -
  have run: "NewGitPusher (mem_git disk0) options_dry
     = (Inr \<lparr>repo = disk0\<lparr>dryRun := True, maxRetries := 3\<rparr>, opts = options_dry\<rparr>,
        [EvOpenRepo ''/src/k8s'' None, EvCheckout ''master'' None, EvSetDry, EvSetMaxRetries 3])"
    by (simp add: new_defs)
  have l1: "\<forall>r. dryRun (SetDry (mem_git disk0) r)" by (simp add: mem_git_def)
  have l2: "\<forall>n r. dryRun (SetMaxRetries (mem_git disk0) n r) = dryRun r"
    by (simp add: mem_git_def)
  have l3: "\<forall>n r. maxRetries (SetMaxRetries (mem_git disk0) n r) = n"
    by (simp add: mem_git_def)
  have fresh: "\<forall>r0 r1. OpenRepo (mem_git disk0) (RepoPath options_dry) = Inr r0
         \<and> Checkout (mem_git disk0) (DefaultBranch (mem_git disk0)) r0 = (None, r1)
         \<longrightarrow> \<not> dryRun r1"
    by (simp add: new_defs)
  from NewGitPusher_propagates [OF run, of dryRun maxRetries] run l1 l2 l3 fresh
  show ?thesis by (elim exE conjE) (intro conjI exI, assumption+, blast+)
qed

subsection \<open>Errors of repository calls\<close>

text \<open>
  Claim C8. In \<open>NewGitPusher\<close>, \<open>PushBranch\<close> and \<open>PushTag\<close>: whenever one of the calls
  made to the repository returned an error, the operation returns that error wrapped with
  a non-empty message, and the failed call is the last call the operation made (the error
  is not swallowed and the call is not retried).
\<close>

theorem collaborator_errors_are_wrapped:
  "(NewGitPusher G options = (res, evs) \<and> ev \<in> set evs \<and> event_error ev = Some err
      \<longrightarrow> (\<exists>msg. res = Inl (errors_Wrap err msg) \<and> msg \<noteq> []) \<and> last evs = ev)
   \<and> (PushBranch P G gp name = (e, gp', evs) \<and> ev \<in> set evs \<and> event_error ev = Some err
      \<longrightarrow> (\<exists>msg. e = Some (errors_Wrap err msg) \<and> msg \<noteq> []) \<and> last evs = ev)
   \<and> (PushTag P G gp name = (e, gp', evs) \<and> ev \<in> set evs \<and> event_error ev = Some err
      \<longrightarrow> (\<exists>msg. e = Some (errors_Wrap err msg) \<and> msg \<noteq> []) \<and> last evs = ev)"
proof -
  have new: "(\<exists>msg. res = Inl (errors_Wrap err msg) \<and> msg \<noteq> []) \<and> last evs = ev"
    if "NewGitPusher G options = (res, evs)" "ev \<in> set evs" "event_error ev = Some err"
    using NewGitPusher_cases [OF that(1)] that(2,3) by (auto split: if_splits)
  have branch: "(\<exists>msg. e = Some (errors_Wrap err msg) \<and> msg \<noteq> []) \<and> last evs = ev"
    if "PushBranch P G gp name = (e, gp', evs)" "ev \<in> set evs" "event_error ev = Some err"
    using PushBranch_cases [OF that(1)] that(2,3) by auto
  have tag: "(\<exists>msg. e = Some (errors_Wrap err msg) \<and> msg \<noteq> []) \<and> last evs = ev"
    if "PushTag P G gp name = (e, gp', evs)" "ev \<in> set evs" "event_error ev = Some err"
    using PushTag_cases [OF that(1)] that(2,3) by auto
  from new branch tag show ?thesis by blast
qed

theorem collaborator_errors_are_wrapped_witness:
  "NewGitPusher (mem_git disk0) options_nowhere
     = (Inl (errors_Wrap (errors_New ''repository does not exist'') ''while opening repository''),
        [EvOpenRepo [] (Some (errors_New ''repository does not exist''))])
   \<and> (\<exists>msg. (Inl (errors_Wrap (errors_New ''repository does not exist'')
                    ''while opening repository'') :: error + mem_repo GitObjectPusher)
             = Inl (errors_Wrap (errors_New ''repository does not exist'') msg) \<and> msg \<noteq> [])
   \<and> PushBranch sample_parsers (mem_git disk0) gp_offline ''release-1.19''
     = (Some (errors_Wrap (errors_New ''remote unreachable'')
                (''checking if branch '' @ ''release-1.19'' @ '' exists in remote repository'')),
        gp_offline,
        [EvHasBranch ''release-1.19'' (Inr True),
         EvHasRemoteBranch ''release-1.19'' (Inl (errors_New ''remote unreachable''))])
   \<and> last [EvHasBranch ''release-1.19'' (Inr True),
            EvHasRemoteBranch ''release-1.19'' (Inl (errors_New ''remote unreachable''))]
       = EvHasRemoteBranch ''release-1.19'' (Inl (errors_New ''remote unreachable''))
   \<and> PushTag sample_parsers (mem_git disk0) gp_offline ''v1.19.0''
     = (Some (errors_Wrap (errors_New ''remote unreachable'')
                (''checking of tag '' @ ''v1.19.0'' @ '' exists'')),
        gp_offline,
        [EvTagsForBranch ''master'' (Inr [''v1.18.0'', ''v1.19.0'']),
         EvHasRemoteTag ''v1.19.0'' (Inl (errors_New ''remote unreachable''))])
   \<and> last [EvTagsForBranch ''master'' (Inr [''v1.18.0'', ''v1.19.0'']),
            EvHasRemoteTag ''v1.19.0'' (Inl (errors_New ''remote unreachable''))]
       = EvHasRemoteTag ''v1.19.0'' (Inl (errors_New ''remote unreachable''))"
proof -
  have new: "NewGitPusher (mem_git disk0) options_nowhere
     = (Inl (errors_Wrap (errors_New ''repository does not exist'') ''while opening repository''),
        [EvOpenRepo [] (Some (errors_New ''repository does not exist''))])"
    by (simp add: new_defs)
  have branch: "PushBranch sample_parsers (mem_git disk0) gp_offline ''release-1.19''
     = (Some (errors_Wrap (errors_New ''remote unreachable'')
                (''checking if branch '' @ ''release-1.19'' @ '' exists in remote repository'')),
        gp_offline,
        [EvHasBranch ''release-1.19'' (Inr True),
         EvHasRemoteBranch ''release-1.19'' (Inl (errors_New ''remote unreachable''))])"
    by (simp add: run_defs)
  have tag: "PushTag sample_parsers (mem_git disk0) gp_offline ''v1.19.0''
     = (Some (errors_Wrap (errors_New ''remote unreachable'')
                (''checking of tag '' @ ''v1.19.0'' @ '' exists'')),
        gp_offline,
        [EvTagsForBranch ''master'' (Inr [''v1.18.0'', ''v1.19.0'']),
         EvHasRemoteTag ''v1.19.0'' (Inl (errors_New ''remote unreachable''))])"
    by (simp add: run_defs)
  have n_in: "EvOpenRepo [] (Some (errors_New ''repository does not exist''))
      \<in> set [EvOpenRepo [] (Some (errors_New ''repository does not exist''))]
    \<and> event_error (EvOpenRepo [] (Some (errors_New ''repository does not exist'')))
      = Some (errors_New ''repository does not exist'')"
    by simp
  have b_in: "EvHasRemoteBranch ''release-1.19'' (Inl (errors_New ''remote unreachable''))
      \<in> set [EvHasBranch ''release-1.19'' (Inr True),
              EvHasRemoteBranch ''release-1.19'' (Inl (errors_New ''remote unreachable''))]
    \<and> event_error (EvHasRemoteBranch ''release-1.19'' (Inl (errors_New ''remote unreachable'')))
      = Some (errors_New ''remote unreachable'')"
    by simp
  have t_in: "EvHasRemoteTag ''v1.19.0'' (Inl (errors_New ''remote unreachable''))
      \<in> set [EvTagsForBranch ''master'' (Inr [''v1.18.0'', ''v1.19.0'']),
              EvHasRemoteTag ''v1.19.0'' (Inl (errors_New ''remote unreachable''))]
    \<and> event_error (EvHasRemoteTag ''v1.19.0'' (Inl (errors_New ''remote unreachable'')))
      = Some (errors_New ''remote unreachable'')"
    by simp
  from collaborator_errors_are_wrapped
         [where G = "mem_git disk0" and options = options_nowhere
            and evs = "[EvOpenRepo [] (Some (errors_New ''repository does not exist''))]"
            and ev = "EvOpenRepo [] (Some (errors_New ''repository does not exist''))"
            and err = "errors_New ''repository does not exist''"] new n_in
  have c1: "\<exists>msg. (Inl (errors_Wrap (errors_New ''repository does not exist'')
                    ''while opening repository'') :: error + mem_repo GitObjectPusher)
             = Inl (errors_Wrap (errors_New ''repository does not exist'') msg) \<and> msg \<noteq> []"
    by blast
  from collaborator_errors_are_wrapped
         [where G = "mem_git disk0" and P = sample_parsers and gp = gp_offline
            and name = "''release-1.19''" and gp' = gp_offline
            and evs = "[EvHasBranch ''release-1.19'' (Inr True),
               EvHasRemoteBranch ''release-1.19'' (Inl (errors_New ''remote unreachable''))]"
            and ev = "EvHasRemoteBranch ''release-1.19'' (Inl (errors_New ''remote unreachable''))"
            and err = "errors_New ''remote unreachable''"]
       branch b_in
  have c2: "last [EvHasBranch ''release-1.19'' (Inr True),
            EvHasRemoteBranch ''release-1.19'' (Inl (errors_New ''remote unreachable''))]
       = EvHasRemoteBranch ''release-1.19'' (Inl (errors_New ''remote unreachable''))"
    by blast
  from collaborator_errors_are_wrapped
         [where G = "mem_git disk0" and P = sample_parsers and gp = gp_offline
            and name = "''v1.19.0''" and gp' = gp_offline
            and evs = "[EvTagsForBranch ''master'' (Inr [''v1.18.0'', ''v1.19.0'']),
               EvHasRemoteTag ''v1.19.0'' (Inl (errors_New ''remote unreachable''))]"
            and ev = "EvHasRemoteTag ''v1.19.0'' (Inl (errors_New ''remote unreachable''))"
            and err = "errors_New ''remote unreachable''"]
       tag t_in
  have c3: "last [EvTagsForBranch ''master'' (Inr [''v1.18.0'', ''v1.19.0'']),
            EvHasRemoteTag ''v1.19.0'' (Inl (errors_New ''remote unreachable''))]
       = EvHasRemoteTag ''v1.19.0'' (Inl (errors_New ''remote unreachable''))"
    by blast
  from new branch tag c1 c2 c3 show ?thesis by blast
qed

subsection \<open>When construction sets dry-run\<close>

text \<open>
  Claim C9 says that construction issues a dry-run call iff \<open>DryRun\<close> is set. As stated
  this fails: when \<open>OpenRepo\<close> (or \<open>Checkout\<close>) fails, \<open>NewGitPusher\<close> returns before it
  reaches the dry-run step, so with \<open>DryRun\<close> set no \<open>SetDry\<close> call is made. The run below
  opens a path that is not a repository.
\<close>

theorem NewGitPusher_SetDry_counterexample:
  "DryRun options_nowhere
   \<and> NewGitPusher (mem_git disk0) options_nowhere
       = (Inl (errors_Wrap (errors_New ''repository does not exist'')
                 ''while opening repository''),
          [EvOpenRepo [] (Some (errors_New ''repository does not exist''))])
   \<and> EvSetDry \<notin> set (snd (NewGitPusher (mem_git disk0) options_nowhere))
   \<and> \<not> (EvSetDry \<in> set (snd (NewGitPusher (mem_git disk0) options_nowhere))
          \<longleftrightarrow> DryRun options_nowhere)"
  by (simp add: new_defs)

text \<open>
  Claim C9, amended. \<open>NewGitPusher\<close> calls \<open>SetDry\<close> iff \<open>DryRun\<close> is set and the
  construction succeeds (open and checkout returned no error), and it calls it at most
  once. When \<open>DryRun\<close> is not set, a successful construction returns the handle as it was
  after checkout with only \<open>SetMaxRetries\<close> applied: no dry-run call of any kind was made.
\<close>

theorem NewGitPusher_SetDry:
  assumes "NewGitPusher G options = (res, evs)"
  shows "(EvSetDry \<in> set evs \<longleftrightarrow> DryRun options \<and> (\<exists>gp. res = Inr gp))
       \<and> length (filter (\<lambda>ev. ev = EvSetDry) evs) \<le> 1
       \<and> (\<not> DryRun options \<longrightarrow>
            (\<forall>gp. res = Inr gp \<longrightarrow>
               (\<exists>r0 r1. OpenRepo G (RepoPath options) = Inr r0
                  \<and> Checkout G (DefaultBranch G) r0 = (None, r1)
                  \<and> repo gp = SetMaxRetries G (MaxRetries options) r1)))"
  using NewGitPusher_cases [OF assms] by (auto split: if_splits)

theorem NewGitPusher_SetDry_witness:
  "NewGitPusher (mem_git disk0) options_dry
     = (Inr \<lparr>repo = disk0\<lparr>dryRun := True, maxRetries := 3\<rparr>, opts = options_dry\<rparr>,
        [EvOpenRepo ''/src/k8s'' None, EvCheckout ''master'' None, EvSetDry, EvSetMaxRetries 3])
   \<and> DryRun options_dry
   \<and> EvSetDry \<in> set [EvOpenRepo ''/src/k8s'' None, EvCheckout ''master'' None, EvSetDry,
                      EvSetMaxRetries 3]
   \<and> length (filter (\<lambda>ev. ev = EvSetDry)
        [EvOpenRepo ''/src/k8s'' None, EvCheckout ''master'' None, EvSetDry,
         EvSetMaxRetries 3]) \<le> 1"
proof -
  have run: "NewGitPusher (mem_git disk0) options_dry
     = (Inr \<lparr>repo = disk0\<lparr>dryRun := True, maxRetries := 3\<rparr>, opts = options_dry\<rparr>,
        [EvOpenRepo ''/src/k8s'' None, EvCheckout ''master'' None, EvSetDry, EvSetMaxRetries 3])"
    by (simp add: new_defs)
  have dry: "DryRun options_dry" by (simp add: options_dry_def)
  from NewGitPusher_SetDry [OF run] run dry show ?thesis by blast
qed

subsection \<open>What the two push operations leave alone\<close>

text \<open>
  Claim C10. For every input, the calls \<open>PushBranch\<close> makes to the repository are an
  initial part of: the local existence query, the remote existence query, one push, in this
  order and for the given name; the same holds for \<open>PushTag\<close> with \<open>TagsForBranch\<close> of the
  default branch as the local query. So there is at most one push, no open, checkout,
  \<open>SetDry\<close> or \<open>SetMaxRetries\<close> call, and the options of the pusher are unchanged.
\<close>

theorem push_operations_frame:
  "(PushBranch P G gp name = (e, gp', evs)
      \<longrightarrow> opts gp' = opts gp
          \<and> (\<exists>l r p. prefix evs [EvHasBranch name l, EvHasRemoteBranch name r, EvPush name p])
          \<and> push_count evs \<le> 1 \<and> (\<forall>ev \<in> set evs. \<not> is_setup ev))
   \<and> (PushTag P G gp name = (e, gp', evs)
      \<longrightarrow> opts gp' = opts gp
          \<and> (\<exists>l r p. prefix evs [EvTagsForBranch (DefaultBranch G) l, EvHasRemoteTag name r,
                                  EvPush name p])
          \<and> push_count evs \<le> 1 \<and> (\<forall>ev \<in> set evs. \<not> is_setup ev))"
proof -
  have branch: "opts gp' = opts gp
          \<and> (\<exists>l r p. prefix evs [EvHasBranch name l, EvHasRemoteBranch name r, EvPush name p])
          \<and> push_count evs \<le> 1 \<and> (\<forall>ev \<in> set evs. \<not> is_setup ev)"
    if "PushBranch P G gp name = (e, gp', evs)"
    using PushBranch_cases [OF that] PushBranch_opts [OF that]
    by (elim disjE exE conjE) (simp_all add: prefix_Cons)
  have tag: "opts gp' = opts gp
          \<and> (\<exists>l r p. prefix evs [EvTagsForBranch (DefaultBranch G) l, EvHasRemoteTag name r,
                                  EvPush name p])
          \<and> push_count evs \<le> 1 \<and> (\<forall>ev \<in> set evs. \<not> is_setup ev)"
    if "PushTag P G gp name = (e, gp', evs)"
    using PushTag_cases [OF that] PushTag_opts [OF that]
    by (elim disjE exE conjE) (simp_all add: prefix_Cons)
  from branch tag show ?thesis by blast
qed

theorem push_operations_frame_witness:
  "PushBranch sample_parsers (mem_git disk0) gp0 ''release-1.19''
     = (None, gp0\<lparr>repo := disk0\<lparr>remote := ''release-1.19'' # remote disk0\<rparr>\<rparr>,
        [EvHasBranch ''release-1.19'' (Inr True), EvHasRemoteBranch ''release-1.19'' (Inr False),
         EvPush ''release-1.19'' None])
   \<and> opts (gp0\<lparr>repo := disk0\<lparr>remote := ''release-1.19'' # remote disk0\<rparr>\<rparr>) = opts gp0
   \<and> push_count [EvHasBranch ''release-1.19'' (Inr True),
                  EvHasRemoteBranch ''release-1.19'' (Inr False),
                  EvPush ''release-1.19'' None] \<le> 1
   \<and> PushTag sample_parsers (mem_git disk0) gp0 ''v1.19.0''
     = (None, gp0\<lparr>repo := disk0\<lparr>remote := ''v1.19.0'' # remote disk0\<rparr>\<rparr>,
        [EvTagsForBranch ''master'' (Inr [''v1.18.0'', ''v1.19.0'']),
         EvHasRemoteTag ''v1.19.0'' (Inr False), EvPush ''v1.19.0'' None])
   \<and> opts (gp0\<lparr>repo := disk0\<lparr>remote := ''v1.19.0'' # remote disk0\<rparr>\<rparr>) = opts gp0
   \<and> push_count [EvTagsForBranch ''master'' (Inr [''v1.18.0'', ''v1.19.0'']),
                  EvHasRemoteTag ''v1.19.0'' (Inr False), EvPush ''v1.19.0'' None] \<le> 1"
proof -
  have branch: "PushBranch sample_parsers (mem_git disk0) gp0 ''release-1.19''
     = (None, gp0\<lparr>repo := disk0\<lparr>remote := ''release-1.19'' # remote disk0\<rparr>\<rparr>,
        [EvHasBranch ''release-1.19'' (Inr True), EvHasRemoteBranch ''release-1.19'' (Inr False),
         EvPush ''release-1.19'' None])"
    by (simp add: run_defs)
  have tag: "PushTag sample_parsers (mem_git disk0) gp0 ''v1.19.0''
     = (None, gp0\<lparr>repo := disk0\<lparr>remote := ''v1.19.0'' # remote disk0\<rparr>\<rparr>,
        [EvTagsForBranch ''master'' (Inr [''v1.18.0'', ''v1.19.0'']),
         EvHasRemoteTag ''v1.19.0'' (Inr False), EvPush ''v1.19.0'' None])"
    by (simp add: run_defs)
  from push_operations_frame
         [of sample_parsers "mem_git disk0" gp0 "''release-1.19''" None
             "gp0\<lparr>repo := disk0\<lparr>remote := ''release-1.19'' # remote disk0\<rparr>\<rparr>"
             "[EvHasBranch ''release-1.19'' (Inr True),
               EvHasRemoteBranch ''release-1.19'' (Inr False), EvPush ''release-1.19'' None]"]
       push_operations_frame
         [of sample_parsers "mem_git disk0" gp0 "''v1.19.0''" None
             "gp0\<lparr>repo := disk0\<lparr>remote := ''v1.19.0'' # remote disk0\<rparr>\<rparr>"
             "[EvTagsForBranch ''master'' (Inr [''v1.18.0'', ''v1.19.0'']),
               EvHasRemoteTag ''v1.19.0'' (Inr False), EvPush ''v1.19.0'' None]"]
       branch tag
  show ?thesis by blast
qed

end
